theory Spec2Isabelle
  imports Main "HOL-Library.Multiset" "HOL-Library.Sublist"
begin

section \<open>JavaScript values\<close>

text \<open>
  The values that reach the two handlers of \<^verbatim>\<open>server.js\<close>: the fields of the JSON
  request body (an absent key reads as \<^verbatim>\<open>undefined\<close>), the cells of the rows the
  database driver hands back, and the numbers the handlers compute from them.
  Numbers are the integers and \<^verbatim>\<open>NaN\<close>; a JavaScript number holds an integer exactly
  up to \<open>2 ^ 53\<close>, and fractions, arrays and objects are left out.
\<close>

datatype jsval = JUndefined | JNull | JBool bool | JNaN | JNum int | JStr string

text \<open>\<^verbatim>\<open>ToBoolean\<close>: what \<^verbatim>\<open>!v\<close> and \<^verbatim>\<open>v || w\<close> test.\<close>

fun truthy :: "jsval \<Rightarrow> bool" where
  "truthy JUndefined = False"
| "truthy JNull = False"
| "truthy (JBool b) = b"
| "truthy JNaN = False"
| "truthy (JNum n) = (n \<noteq> 0)"
| "truthy (JStr s) = (s \<noteq> [])"

text \<open>\<^verbatim>\<open>a || b\<close> is \<^verbatim>\<open>a\<close> when \<^verbatim>\<open>a\<close> is truthy and \<^verbatim>\<open>b\<close> otherwise.\<close>

definition js_or :: "jsval \<Rightarrow> jsval \<Rightarrow> jsval" where
  "js_or a b = (if truthy a then a else b)"

subsection \<open>Decimal text of a number\<close>

definition digit_char :: "nat \<Rightarrow> char" where
  "digit_char d = char_of (48 + d)"

function show_nat :: "nat \<Rightarrow> string" where
  "show_nat n = (if n < 10 then [digit_char n] else show_nat (n div 10) @ [digit_char (n mod 10)])"
  by pat_completeness auto
termination
  by (relation "measure (\<lambda>n. n)") auto

declare show_nat.simps [simp del]

definition show_int :: "int \<Rightarrow> string" where
  "show_int i = (if i < 0 then CHR ''-'' # show_nat (nat (- i)) else show_nat (nat i))"

text \<open>\<^verbatim>\<open>ToString\<close>, the first step of \<^verbatim>\<open>parseInt\<close>.\<close>

fun ToString :: "jsval \<Rightarrow> string" where
  "ToString JUndefined = ''undefined''"
| "ToString JNull = ''null''"
| "ToString (JBool b) = (if b then ''true'' else ''false'')"
| "ToString JNaN = ''NaN''"
| "ToString (JNum n) = show_int n"
| "ToString (JStr s) = s"

subsection \<open>parseInt\<close>

definition is_ws :: "char \<Rightarrow> bool" where
  "is_ws c \<longleftrightarrow> c \<in> set [CHR 0x09, CHR 0x0A, CHR 0x0B, CHR 0x0C, CHR 0x0D, CHR 0x20]"

definition digit_of :: "char \<Rightarrow> nat option" where
  "digit_of c =
     (let k = (of_char c :: nat) in
      if 48 \<le> k \<and> k \<le> 57 then Some (k - 48)
      else if 97 \<le> k \<and> k \<le> 122 then Some (k - 87)
      else if 65 \<le> k \<and> k \<le> 90 then Some (k - 55)
      else None)"

definition radix_digit :: "nat \<Rightarrow> char \<Rightarrow> nat option" where
  "radix_digit R c = (case digit_of c of None \<Rightarrow> None | Some d \<Rightarrow> if d < R then Some d else None)"

fun parse_digits :: "nat \<Rightarrow> nat \<Rightarrow> string \<Rightarrow> nat" where
  "parse_digits R acc [] = acc"
| "parse_digits R acc (c # cs) =
     (case radix_digit R c of None \<Rightarrow> acc | Some d \<Rightarrow> parse_digits R (acc * R + d) cs)"

text \<open>
  \<^verbatim>\<open>parseInt(string)\<close> with no radix: leading white space is dropped (the ASCII
  white space here), a sign is read, a \<^verbatim>\<open>0x\<close> prefix selects radix 16, and the longest
  run of digits is the value; no digit at all gives \<^verbatim>\<open>NaN\<close>.
\<close>

definition parseInt_string :: "string \<Rightarrow> jsval" where
  "parseInt_string inputString =
     (let S = dropWhile is_ws inputString;
          sign = (if take 1 S = ''-'' then - 1 else (1 :: int));
          S = (if take 1 S = ''+'' \<or> take 1 S = ''-'' then drop 1 S else S);
          R = (if take 2 S = ''0x'' \<or> take 2 S = ''0X'' then 16 else 10);
          S = (if take 2 S = ''0x'' \<or> take 2 S = ''0X'' then drop 2 S else S)
      in case S of
           [] \<Rightarrow> JNaN
         | c # _ \<Rightarrow>
             (case radix_digit R c of
                None \<Rightarrow> JNaN
              | Some _ \<Rightarrow> JNum (sign * int (parse_digits R 0 S))))"

definition parseInt :: "jsval \<Rightarrow> jsval" where
  "parseInt v = parseInt_string (ToString v)"

section \<open>The game\_scores table\<close>

text \<open>
  Modelled from the spec: the table \<^verbatim>\<open>game_scores\<close>, whose declaration is not part of
  the repository. A row has the four columns the statements of \<^verbatim>\<open>server.js\<close> name:
  a user identifier, a game type (both text), an integer score, and the time of the
  write. The table is the list of its rows in insertion order.
\<close>

record game_score =
  user_id :: string
  game_type :: string
  score :: int
  played_at :: nat

text \<open>The five statements the two handlers send.\<close>

datatype stmt = InsertScore | CountGames | MaxScore | MinScore | RecentGames

text \<open>
  What the code leaves to the database is a parameter:
  \<^item> \<open>throws\<close>: whether \<^verbatim>\<open>pool.query\<close> rejects a statement with the given bound
    values (store unreachable, a value the column does not take, a constraint or a
    reference to a user that does not exist);
  \<^item> \<open>text_of\<close>, \<open>int_of\<close>: the column value stored for a bound value that is not
    already of the column's type;
  \<^item> \<open>order_by\<close>: the order in which \<^verbatim>\<open>ORDER BY played_at DESC\<close> returns the rows.
\<close>

record store =
  throws :: "stmt \<Rightarrow> jsval list \<Rightarrow> bool"
  text_of :: "jsval \<Rightarrow> string"
  int_of :: "jsval \<Rightarrow> int"
  order_by :: "game_score list \<Rightarrow> game_score list"

fun text_in :: "store \<Rightarrow> jsval \<Rightarrow> string" where
  "text_in db (JStr s) = s"
| "text_in db v = text_of db v"

fun int_in :: "store \<Rightarrow> jsval \<Rightarrow> int" where
  "int_in db (JNum n) = n"
| "int_in db v = int_of db v"

text \<open>
  \<^verbatim>\<open>ORDER BY played_at DESC\<close> promises a rearrangement of the selected rows in which
  \<open>played_at\<close> never increases; it says nothing about rows with equal \<open>played_at\<close>.
\<close>

definition newest_first :: "game_score list \<Rightarrow> bool" where
  "newest_first rs = sorted_wrt (\<lambda>a b. played_at b \<le> played_at a) rs"

definition order_by_ok :: "store \<Rightarrow> game_score list \<Rightarrow> bool" where
  "order_by_ok db rs \<longleftrightarrow> mset (order_by db rs) = mset rs \<and> newest_first (order_by db rs)"

text \<open>\<^verbatim>\<open>MAX\<close> and \<^verbatim>\<open>MIN\<close> of a column: \<^verbatim>\<open>NULL\<close> over no rows.\<close>

fun sql_max :: "int list \<Rightarrow> int option" where
  "sql_max [] = None"
| "sql_max (x # xs) = Some (fold max xs x)"

fun sql_min :: "int list \<Rightarrow> int option" where
  "sql_min [] = None"
| "sql_min (x # xs) = Some (fold min xs x)"

text \<open>An integer cell arrives as a number, \<^verbatim>\<open>NULL\<close> as \<^verbatim>\<open>null\<close>.\<close>

fun int_cell :: "int option \<Rightarrow> jsval" where
  "int_cell None = JNull"
| "int_cell (Some n) = JNum n"

text \<open>
  The result of an aggregate statement is the list of its rows, each row its one named
  column. \<^verbatim>\<open>rows[0]?.column\<close> reads the first row, and is \<^verbatim>\<open>undefined\<close> when there is
  none.
\<close>

fun first_row_field :: "jsval list \<Rightarrow> jsval" where
  "first_row_field [] = JUndefined"
| "first_row_field (c # _) = c"

text \<open>
  \<^verbatim>\<open>INSERT INTO game_scores (user_id, game_type, score, played_at)
  VALUES ($1, $2, $3, CURRENT_TIMESTAMP)\<close>; \<open>now\<close> is the time the database assigns.
  A rejected statement writes nothing.
\<close>

definition insert_game_score ::
  "store \<Rightarrow> nat \<Rightarrow> jsval \<Rightarrow> jsval \<Rightarrow> jsval \<Rightarrow> game_score list \<Rightarrow> game_score list option" where
  "insert_game_score db now u g s rows =
     (if throws db InsertScore [u, g, s] then None
      else Some (rows @ [\<lparr>user_id = text_in db u, game_type = text_in db g,
                          score = int_in db s, played_at = now\<rparr>]))"

text \<open>\<^verbatim>\<open>SELECT COUNT(*) as total FROM game_scores WHERE user_id = $1\<close>: one row; the
  driver returns the 64-bit count as decimal text.\<close>

definition totalGamesQuery :: "store \<Rightarrow> string \<Rightarrow> game_score list \<Rightarrow> jsval list option" where
  "totalGamesQuery db userId rows =
     (if throws db CountGames [JStr userId] then None
      else Some [JStr (show_nat (length (filter (\<lambda>r. user_id r = userId) rows)))])"

text \<open>\<^verbatim>\<open>SELECT MAX(score) as best_score FROM game_scores
  WHERE user_id = $1 AND game_type = $2\<close>\<close>

definition bestClickerQuery ::
  "store \<Rightarrow> string \<Rightarrow> string \<Rightarrow> game_score list \<Rightarrow> jsval list option" where
  "bestClickerQuery db userId gameType rows =
     (if throws db MaxScore [JStr userId, JStr gameType] then None
      else Some [int_cell (sql_max (map score
             (filter (\<lambda>r. user_id r = userId \<and> game_type r = gameType) rows)))])"

text \<open>\<^verbatim>\<open>SELECT MIN(score) as best_moves FROM game_scores
  WHERE user_id = $1 AND game_type = $2\<close>\<close>

definition bestMemoryQuery ::
  "store \<Rightarrow> string \<Rightarrow> string \<Rightarrow> game_score list \<Rightarrow> jsval list option" where
  "bestMemoryQuery db userId gameType rows =
     (if throws db MinScore [JStr userId, JStr gameType] then None
      else Some [int_cell (sql_min (map score
             (filter (\<lambda>r. user_id r = userId \<and> game_type r = gameType) rows)))])"

text \<open>\<^verbatim>\<open>SELECT game_type, score, played_at FROM game_scores WHERE user_id = $1
  ORDER BY played_at DESC LIMIT 10\<close>\<close>

type_synonym recent_game = "string \<times> int \<times> nat"

definition recent_columns :: "game_score \<Rightarrow> recent_game" where
  "recent_columns r = (game_type r, score r, played_at r)"

definition recentGamesQuery :: "store \<Rightarrow> string \<Rightarrow> game_score list \<Rightarrow> recent_game list option" where
  "recentGamesQuery db userId rows =
     (if throws db RecentGames [JStr userId] then None
      else Some (map recent_columns
             (take 10 (order_by db (filter (\<lambda>r. user_id r = userId) rows)))))"

section \<open>The handlers\<close>

record stats =
  totalGames :: jsval
  bestClickerScore :: jsval
  bestMemoryMoves :: jsval
  recentGames :: "recent_game list"

datatype body = Message string | Error string | Stats stats

text \<open>A response is its status code and its JSON body.\<close>

type_synonym response = "nat \<times> body"

text \<open>
  \<^verbatim>\<open>POST /api/game-score\<close>. The three arguments are the fields destructured from the
  request body. The result is the response and the table afterwards.
\<close>

definition recordScore ::
  "store \<Rightarrow> nat \<Rightarrow> game_score list \<Rightarrow> jsval \<Rightarrow> jsval \<Rightarrow> jsval \<Rightarrow> response \<times> game_score list" where
  "recordScore db now rows userId gameType score_field =
     (if \<not> truthy userId \<or> \<not> truthy gameType \<or> score_field = JUndefined
      then ((400, Error ''All fields are required''), rows)
      else case insert_game_score db now userId gameType score_field rows of
             None \<Rightarrow> ((500, Error ''Internal server error''), rows)
           | Some rows' \<Rightarrow> ((200, Message ''Game score saved successfully''), rows'))"

text \<open>\<^verbatim>\<open>GET /api/stats/:userId\<close>. The first statement that throws ends the handler
  in its \<^verbatim>\<open>catch\<close>.\<close>

definition getStats :: "store \<Rightarrow> game_score list \<Rightarrow> string \<Rightarrow> response" where
  "getStats db rows userId =
     (case totalGamesQuery db userId rows of
        None \<Rightarrow> (500, Error ''Internal server error'')
      | Some total_rows \<Rightarrow>
     (case bestClickerQuery db userId ''clicker'' rows of
        None \<Rightarrow> (500, Error ''Internal server error'')
      | Some best_score_rows \<Rightarrow>
     (case bestMemoryQuery db userId ''memory'' rows of
        None \<Rightarrow> (500, Error ''Internal server error'')
      | Some best_moves_rows \<Rightarrow>
     (case recentGamesQuery db userId rows of
        None \<Rightarrow> (500, Error ''Internal server error'')
      | Some recent \<Rightarrow>
          (200, Stats \<lparr>totalGames = js_or (parseInt (first_row_field total_rows)) (JNum 0),
                       bestClickerScore = js_or (parseInt (first_row_field best_score_rows)) (JNum 0),
                       bestMemoryMoves = js_or (parseInt (first_row_field best_moves_rows)) (JNum 0),
                       recentGames = recent\<rparr>)))))"

section \<open>Observations used in the statements\<close>

text \<open>The database answers all four statements of the stats handler for this user.\<close>

definition answers :: "store \<Rightarrow> string \<Rightarrow> bool" where
  "answers db userId \<longleftrightarrow>
     \<not> throws db CountGames [JStr userId] \<and>
     \<not> throws db MaxScore [JStr userId, JStr ''clicker''] \<and>
     \<not> throws db MinScore [JStr userId, JStr ''memory''] \<and>
     \<not> throws db RecentGames [JStr userId]"

text \<open>The records of one user, and the scores of one user in one game.\<close>

definition records_of :: "game_score list \<Rightarrow> string \<Rightarrow> game_score list" where
  "records_of rows userId = filter (\<lambda>r. user_id r = userId) rows"

definition scores_of :: "game_score list \<Rightarrow> string \<Rightarrow> string \<Rightarrow> int set" where
  "scores_of rows userId gameType =
     score ` {r \<in> set rows. user_id r = userId \<and> game_type r = gameType}"

text \<open>
  A database that answers every statement, stores a value of another type as its text
  or as 0, and sorts stably: rows with equal \<open>played_at\<close> stay in insertion order.
\<close>

definition stable_db :: store where
  "stable_db = \<lparr>throws = (\<lambda>_ _. False), text_of = ToString, int_of = (\<lambda>_. 0),
                 order_by = sort_key (\<lambda>r. - int (played_at r))\<rparr>"

text \<open>A database that rejects every write and the third statement of the stats handler.\<close>

definition failing_db :: store where
  "failing_db = stable_db\<lparr>throws := (\<lambda>q _. q = InsertScore \<or> q = MinScore)\<rparr>"

section \<open>Sequences of calls\<close>

text \<open>
  A call of the public interface; a \<open>RecordScore\<close> carries the time the database assigns
  to its write. The stats handler sends \<^verbatim>\<open>SELECT\<close> statements only, so a \<open>GetStats\<close>
  hands the table on as it found it. \<open>run\<close> is the table after a sequence of calls.
\<close>

datatype call = RecordScore nat jsval jsval jsval | GetStats string

fun step :: "store \<Rightarrow> game_score list \<Rightarrow> call \<Rightarrow> response \<times> game_score list" where
  "step db rows (RecordScore now userId gameType score_field) =
     recordScore db now rows userId gameType score_field"
| "step db rows (GetStats userId) = (getStats db rows userId, rows)"

fun run :: "store \<Rightarrow> game_score list \<Rightarrow> call list \<Rightarrow> game_score list" where
  "run db rows [] = rows"
| "run db rows (c # cs) = run db (snd (step db rows c)) cs"

section \<open>The vocabulary of the specification\<close>

text \<open>
  The specification declares the user and the game type of \<open>recordScore\<close> as strings,
  each of which may be absent. A field is missing when it is absent and empty when it is
  the empty string.
\<close>

fun text_field :: "jsval \<Rightarrow> bool" where
  "text_field JUndefined = True"
| "text_field (JStr s) = True"
| "text_field v = False"

definition missing_or_empty :: "jsval \<Rightarrow> bool" where
  "missing_or_empty v \<longleftrightarrow> v = JUndefined \<or> v = JStr []"

text \<open>
  The recent games as the specification words them: the user's records by \<open>played_at\<close>,
  newest first, records with equal \<open>played_at\<close> in reverse insertion order, cut at ten.
\<close>

definition spec_recentGames :: "game_score list \<Rightarrow> string \<Rightarrow> recent_game list" where
  "spec_recentGames rows userId =
     map recent_columns (take 10 (rev (sort_key played_at (records_of rows userId))))"

section \<open>Properties\<close>

subsection \<open>parseInt reads back the decimal text of an integer\<close>

lemma digit_of_digit_char: "d < 10 \<Longrightarrow> digit_of (digit_char d) = Some d"
  by (simp add: digit_of_def digit_char_def Let_def)

lemma radix_digit_digit_char: "d < 10 \<Longrightarrow> radix_digit 10 (digit_char d) = Some d"
  by (simp add: radix_digit_def digit_of_digit_char)

lemma parse_digits_snoc:
  "\<forall>c \<in> set ds. radix_digit R c \<noteq> None \<Longrightarrow> radix_digit R c = Some d \<Longrightarrow>
   parse_digits R acc (ds @ [c]) = parse_digits R acc ds * R + d"
  by (induction ds arbitrary: acc) (auto split: option.splits)

lemma show_nat_digits: "c \<in> set (show_nat n) \<Longrightarrow> \<exists>d<10. c = digit_char d"
proof (induction n rule: show_nat.induct)
  case (1 n)
  show ?case
  proof (cases "n < 10")
    case True
    with "1.prems" show ?thesis by (subst (asm) show_nat.simps) auto
  next
    case False
    with "1.prems" have "c \<in> set (show_nat (n div 10)) \<or> c = digit_char (n mod 10)"
      by (subst (asm) show_nat.simps) auto
    then show ?thesis
    proof
      assume "c \<in> set (show_nat (n div 10))"
      with False "1.IH" show ?thesis by blast
    next
      assume "c = digit_char (n mod 10)"
      moreover have "n mod 10 < 10" by simp
      ultimately show ?thesis by blast
    qed
  qed
qed

lemma parse_show_nat: "parse_digits 10 0 (show_nat n) = n"
proof (induction n rule: show_nat.induct)
  case (1 n)
  show ?case
  proof (cases "n < 10")
    case True
    then show ?thesis by (subst show_nat.simps) (simp add: radix_digit_digit_char)
  next
    case False
    have all: "\<forall>c \<in> set (show_nat (n div 10)). radix_digit 10 c \<noteq> None"
      using show_nat_digits radix_digit_digit_char by fastforce
    have "parse_digits 10 0 (show_nat (n div 10) @ [digit_char (n mod 10)])
          = parse_digits 10 0 (show_nat (n div 10)) * 10 + n mod 10"
      by (rule parse_digits_snoc [OF all]) (simp add: radix_digit_digit_char)
    also have "\<dots> = n div 10 * 10 + n mod 10" using "1.IH" False by simp
    also have "\<dots> = n" by simp
    finally show ?thesis using False by (subst show_nat.simps) simp
  qed
qed

lemma show_nat_ne: "show_nat n \<noteq> []"
  by (subst show_nat.simps) simp

lemma hd_show_nat: "\<exists>d<10. \<exists>cs. show_nat n = digit_char d # cs"
proof -
  obtain c cs where eq: "show_nat n = c # cs" using show_nat_ne by (cases "show_nat n") auto
  then have "c \<in> set (show_nat n)" by simp
  then obtain d where "d < 10" "c = digit_char d" using show_nat_digits by blast
  with eq show ?thesis by blast
qed

lemma digit_char_facts:
  assumes "d < 10"
  shows "\<not> is_ws (digit_char d)" "digit_char d \<noteq> CHR ''-''" "digit_char d \<noteq> CHR ''+''"
    "digit_char d \<noteq> CHR ''x''" "digit_char d \<noteq> CHR ''X''"
proof -
  have k: "(of_char (digit_char d) :: nat) = 48 + d"
    using assms by (simp add: digit_char_def)
  have ne: "\<And>c. (of_char c :: nat) \<noteq> 48 + d \<Longrightarrow> digit_char d \<noteq> c"
    using k by metis
  show "\<not> is_ws (digit_char d)"
    unfolding is_ws_def by (auto dest!: arg_cong [where f = "of_char :: char \<Rightarrow> nat"] simp: k)
  show "digit_char d \<noteq> CHR ''-''" by (rule ne) simp
  show "digit_char d \<noteq> CHR ''+''" by (rule ne) simp
  show "digit_char d \<noteq> CHR ''x''" by (rule ne) (use assms in simp)
  show "digit_char d \<noteq> CHR ''X''" by (rule ne) (use assms in simp)
qed

lemma show_nat_no_x: "take 2 (show_nat n) \<noteq> ''0x''" "take 2 (show_nat n) \<noteq> ''0X''"
proof -
  have nx: "c \<noteq> CHR ''x'' \<and> c \<noteq> CHR ''X''" if "c \<in> set (show_nat n)" for c
  proof -
    from that obtain d where "d < 10" "c = digit_char d" using show_nat_digits by blast
    then show ?thesis using digit_char_facts(4,5) by simp
  qed
  show "take 2 (show_nat n) \<noteq> ''0x''"
  proof
    assume "take 2 (show_nat n) = ''0x''"
    then have "CHR ''x'' \<in> set (take 2 (show_nat n))" by simp
    then have "CHR ''x'' \<in> set (show_nat n)" by (rule in_set_takeD)
    then show False using nx by blast
  qed
  show "take 2 (show_nat n) \<noteq> ''0X''"
  proof
    assume "take 2 (show_nat n) = ''0X''"
    then have "CHR ''X'' \<in> set (take 2 (show_nat n))" by simp
    then have "CHR ''X'' \<in> set (show_nat n)" by (rule in_set_takeD)
    then show False using nx by blast
  qed
qed

lemma parseInt_string_decimal:
  assumes S: "S = c # cs" and c: "\<not> is_ws c" "c \<noteq> CHR ''-''" "c \<noteq> CHR ''+''"
    and nox: "take 2 S \<noteq> ''0x''" "take 2 S \<noteq> ''0X''"
    and d: "radix_digit 10 c = Some d"
  shows "parseInt_string S = JNum (int (parse_digits 10 0 S))"
proof -
  have dw: "dropWhile is_ws S = S" using S c by simp
  have t1: "take 1 S \<noteq> ''-''" "take 1 S \<noteq> ''+''" using S c by simp_all
  have "parseInt_string S =
        (case S of [] \<Rightarrow> JNaN
         | c # _ \<Rightarrow> (case radix_digit 10 c of None \<Rightarrow> JNaN
                     | Some _ \<Rightarrow> JNum (1 * int (parse_digits 10 0 S))))"
    by (simp only: parseInt_string_def Let_def dw t1 nox if_False simp_thms)
  also have "\<dots> = JNum (int (parse_digits 10 0 S))"
    using d by (simp add: S)
  finally show ?thesis .
qed

lemma parseInt_string_negative:
  assumes S: "S = c # cs" and c: "c \<noteq> CHR ''-''" "c \<noteq> CHR ''+''"
    and nox: "take 2 S \<noteq> ''0x''" "take 2 S \<noteq> ''0X''"
    and d: "radix_digit 10 c = Some d"
  shows "parseInt_string (CHR ''-'' # S) = JNum (- int (parse_digits 10 0 S))"
proof -
  have dw: "dropWhile is_ws (CHR ''-'' # S) = CHR ''-'' # S" by (simp add: is_ws_def)
  have t1: "take 1 (CHR ''-'' # S) = ''-''" by simp
  have d1: "drop 1 (CHR ''-'' # S) = S" by simp
  have "parseInt_string (CHR ''-'' # S) =
        (case S of [] \<Rightarrow> JNaN
         | c # _ \<Rightarrow> (case radix_digit 10 c of None \<Rightarrow> JNaN
                     | Some _ \<Rightarrow> JNum (- 1 * int (parse_digits 10 0 S))))"
    by (simp only: parseInt_string_def Let_def dw t1 d1 nox if_True if_False simp_thms)
  also have "\<dots> = JNum (- int (parse_digits 10 0 S))"
    using d by (simp add: S)
  finally show ?thesis .
qed

lemma parseInt_string_show_nat: "parseInt_string (show_nat n) = JNum (int n)"
proof -
  obtain d cs where d: "d < 10" and eq: "show_nat n = digit_char d # cs"
    using hd_show_nat by blast
  show ?thesis
    using parseInt_string_decimal [OF eq digit_char_facts(1-3) [OF d] show_nat_no_x
        radix_digit_digit_char [OF d]]
    by (simp only: parse_show_nat)
qed

lemma parseInt_string_minus_show_nat: "parseInt_string (CHR ''-'' # show_nat n) = JNum (- int n)"
proof -
  obtain d cs where d: "d < 10" and eq: "show_nat n = digit_char d # cs"
    using hd_show_nat by blast
  show ?thesis
    using parseInt_string_negative [OF eq digit_char_facts(2-3) [OF d] show_nat_no_x
        radix_digit_digit_char [OF d]]
    by (simp only: parse_show_nat)
qed

lemma parseInt_JNum: "parseInt (JNum n) = JNum n"
  using parseInt_string_show_nat [of "nat n"] parseInt_string_minus_show_nat [of "nat (- n)"]
  by (simp add: parseInt_def show_int_def)

lemma parseInt_count: "parseInt (JStr (show_nat n)) = JNum (int n)"
  by (simp add: parseInt_def parseInt_string_show_nat)

lemma parseInt_JNull: "parseInt JNull = JNaN"
  by (simp add: parseInt_def parseInt_string_def is_ws_def radix_digit_def digit_of_def)

subsection \<open>What the statements return\<close>

lemma sql_max_eq: "sql_max xs = (if xs = [] then None else Some (Max (set xs)))"
proof (cases xs)
  case Nil
  then show ?thesis by simp
next
  case (Cons a list)
  then show ?thesis using Max.set_eq_fold [of a list] by simp
qed

lemma sql_min_eq: "sql_min xs = (if xs = [] then None else Some (Min (set xs)))"
proof (cases xs)
  case Nil
  then show ?thesis by simp
next
  case (Cons a list)
  then show ?thesis using Min.set_eq_fold [of a list] by simp
qed

lemma best_cell: "js_or (parseInt (int_cell m)) (JNum 0) = JNum (case m of None \<Rightarrow> 0 | Some n \<Rightarrow> n)"
  by (cases m) (simp_all add: parseInt_JNull parseInt_JNum js_or_def)

lemma total_cell: "js_or (parseInt (JStr (show_nat n))) (JNum 0) = JNum (int n)"
  by (simp add: parseInt_count js_or_def)

lemma set_scores:
  "set (map score (filter (\<lambda>r. user_id r = userId \<and> game_type r = gameType) rows))
     = scores_of rows userId gameType"
  by (auto simp: scores_of_def)

lemma getStats_answers:
  assumes "answers db userId"
  shows "getStats db rows userId =
     (200, Stats \<lparr>totalGames = JNum (int (length (records_of rows userId))),
        bestClickerScore = JNum (if scores_of rows userId ''clicker'' = {} then 0
                                 else Max (scores_of rows userId ''clicker'')),
        bestMemoryMoves = JNum (if scores_of rows userId ''memory'' = {} then 0
                                else Min (scores_of rows userId ''memory'')),
        recentGames = map recent_columns (take 10 (order_by db (records_of rows userId)))\<rparr>)"
proof -
  have c: "totalGamesQuery db userId rows = Some [JStr (show_nat (length (records_of rows userId)))]"
    using assms by (simp add: totalGamesQuery_def answers_def records_of_def)
  have mx: "bestClickerQuery db userId ''clicker'' rows
      = Some [int_cell (sql_max (map score (filter (\<lambda>r. user_id r = userId \<and> game_type r = ''clicker'') rows)))]"
    using assms by (simp add: bestClickerQuery_def answers_def)
  have mn: "bestMemoryQuery db userId ''memory'' rows
      = Some [int_cell (sql_min (map score (filter (\<lambda>r. user_id r = userId \<and> game_type r = ''memory'') rows)))]"
    using assms by (simp add: bestMemoryQuery_def answers_def)
  have rc: "recentGamesQuery db userId rows
      = Some (map recent_columns (take 10 (order_by db (records_of rows userId))))"
    using assms by (simp add: recentGamesQuery_def answers_def records_of_def)
  have a: "(case sql_max (map score (filter (\<lambda>r. user_id r = userId \<and> game_type r = ''clicker'') rows)) of None \<Rightarrow> 0 | Some n \<Rightarrow> n)
      = (if scores_of rows userId ''clicker'' = {} then 0 else Max (scores_of rows userId ''clicker''))"
    unfolding sql_max_eq set_scores using set_scores [of userId "''clicker''" rows]
    by (auto simp del: set_map)
  have b: "(case sql_min (map score (filter (\<lambda>r. user_id r = userId \<and> game_type r = ''memory'') rows)) of None \<Rightarrow> 0 | Some n \<Rightarrow> n)
      = (if scores_of rows userId ''memory'' = {} then 0 else Min (scores_of rows userId ''memory''))"
    unfolding sql_min_eq set_scores using set_scores [of userId "''memory''" rows]
    by (auto simp del: set_map)
  show ?thesis
    unfolding getStats_def c mx mn rc option.case first_row_field.simps best_cell total_cell a b ..
qed

subsection \<open>The two handlers\<close>

lemma recordScore_eq:
  "recordScore db now rows u g s =
     (if \<not> truthy u \<or> \<not> truthy g \<or> s = JUndefined
      then ((400, Error ''All fields are required''), rows)
      else if throws db InsertScore [u, g, s]
      then ((500, Error ''Internal server error''), rows)
      else ((200, Message ''Game score saved successfully''),
            rows @ [\<lparr>user_id = text_in db u, game_type = text_in db g,
                      score = int_in db s, played_at = now\<rparr>]))"
  by (simp add: recordScore_def insert_game_score_def)

lemma recordScore_200:
  assumes "recordScore db now rows u g s = ((200, m), rows')"
  shows "rows' = rows @ [\<lparr>user_id = text_in db u, game_type = text_in db g,
                          score = int_in db s, played_at = now\<rparr>]"
    and "truthy u" and "truthy g" and "s \<noteq> JUndefined" and "\<not> throws db InsertScore [u, g, s]"
  using assms by (auto simp: recordScore_eq split: if_splits)

lemma scores_of_append:
  "scores_of (xs @ ys) userId gameType = scores_of xs userId gameType \<union> scores_of ys userId gameType"
  by (auto simp: scores_of_def)

lemma scores_of_Cons:
  "scores_of (r # rs) userId gameType =
     (if user_id r = userId \<and> game_type r = gameType
      then insert (score r) (scores_of rs userId gameType)
      else scores_of rs userId gameType)"
  by (auto simp: scores_of_def)

lemma scores_of_Nil: "scores_of [] userId gameType = {}"
  by (simp add: scores_of_def)

lemma finite_scores_of: "finite (scores_of rows userId gameType)"
  by (simp add: scores_of_def)

lemma answers_stable_db: "answers stable_db userId"
  by (simp add: answers_def stable_db_def)

lemma order_by_ok_stable_db: "order_by_ok stable_db rs"
proof -
  have "sorted (map (\<lambda>r. - int (played_at r)) (sort_key (\<lambda>r. - int (played_at r)) rs))"
    by (rule sorted_sort_key)
  then have "newest_first (sort_key (\<lambda>r. - int (played_at r)) rs)"
    by (simp add: newest_first_def sorted_wrt_map)
  then show ?thesis
    by (simp add: order_by_ok_def stable_db_def)
qed

lemma newest_is_first:
  assumes ok: "order_by_ok db (rs @ [r])" and new: "\<forall>x \<in> set rs. played_at x < played_at r"
  shows "\<exists>tl. order_by db (rs @ [r]) = r # tl"
proof -
  let ?S = "order_by db (rs @ [r])"
  have m: "mset ?S = mset (rs @ [r])" and nf: "newest_first ?S"
    using ok by (simp_all add: order_by_ok_def)
  have s: "set ?S = set (rs @ [r])" using m by (rule mset_eq_setD)
  then have "?S \<noteq> []" by auto
  then obtain x tl where S: "?S = x # tl" by (cases ?S) auto
  have "x = r"
  proof (rule ccontr)
    assume ne: "x \<noteq> r"
    have "x \<in> set (rs @ [r])" using s S by auto
    with ne have "x \<in> set rs" by simp
    then have lt: "played_at x < played_at r" using new by blast
    have "r \<in> set ?S" using s by simp
    with ne S have "r \<in> set tl" by auto
    then have "played_at r \<le> played_at x" using nf S by (auto simp: newest_first_def)
    with lt show False by simp
  qed
  with S show ?thesis by blast
qed

subsection \<open>Aggregates of the stats handler\<close>

text \<open>
  C5: whenever the database answers, \<open>getStats\<close> reports as \<open>totalGames\<close> the number of
  rows of the table whose \<open>user_id\<close> is the requested user, whatever their game type.
\<close>

theorem total_games_counts_user_records:
  assumes "answers db userId"
  shows "\<exists>st. getStats db rows userId = (200, Stats st) \<and>
              totalGames st = JNum (int (length (filter (\<lambda>r. user_id r = userId) rows)))"
  using getStats_answers [OF assms, of rows] by (simp add: records_of_def)

theorem total_games_counts_user_records_witness:
  "answers stable_db ''u1'' \<and>
   (\<exists>st. getStats stable_db
       [\<lparr>user_id = ''u1'', game_type = ''clicker'', score = 7, played_at = 1\<rparr>,
        \<lparr>user_id = ''u2'', game_type = ''clicker'', score = 9, played_at = 2\<rparr>,
        \<lparr>user_id = ''u1'', game_type = ''snake'', score = 3, played_at = 3\<rparr>] ''u1'' = (200, Stats st) \<and>
      totalGames st = JNum 2)"
  using total_games_counts_user_records [OF answers_stable_db, where userId = "''u1''" and rows =
      "[\<lparr>user_id = ''u1'', game_type = ''clicker'', score = 7, played_at = 1\<rparr>,
        \<lparr>user_id = ''u2'', game_type = ''clicker'', score = 9, played_at = 2\<rparr>,
        \<lparr>user_id = ''u1'', game_type = ''snake'', score = 3, played_at = 3\<rparr>]"]
    answers_stable_db [of "''u1''"]
  by simp

text \<open>
  C1: whenever the database answers, \<open>bestClickerScore\<close> is the largest score among the
  user's rows with game type \<open>clicker\<close>, and 0 when there is none. In particular, when
  the scores 50 and then 30 are recorded for a user with no earlier clicker score above
  50, \<open>getStats\<close> reports 50.
\<close>

theorem best_clicker_is_max:
  assumes "answers db userId"
  shows "(\<exists>st. getStats db rows userId = (200, Stats st) \<and>
            bestClickerScore st =
              JNum (if scores_of rows userId ''clicker'' = {} then 0
                    else Max (scores_of rows userId ''clicker''))) \<and>
         (recordScore db t1 rows (JStr userId) (JStr ''clicker'') (JNum 50) = ((200, m1), rows1) \<and>
          recordScore db t2 rows1 (JStr userId) (JStr ''clicker'') (JNum 30) = ((200, m2), rows2) \<and>
          (\<forall>s \<in> scores_of rows userId ''clicker''. s \<le> 50) \<longrightarrow>
          (\<exists>st. getStats db rows2 userId = (200, Stats st) \<and> bestClickerScore st = JNum 50))"
proof (intro conjI impI)
  show "\<exists>st. getStats db rows userId = (200, Stats st) \<and>
            bestClickerScore st =
              JNum (if scores_of rows userId ''clicker'' = {} then 0
                    else Max (scores_of rows userId ''clicker''))"
    using getStats_answers [OF assms, of rows] by simp
next
  assume h: "recordScore db t1 rows (JStr userId) (JStr ''clicker'') (JNum 50) = ((200, m1), rows1) \<and>
          recordScore db t2 rows1 (JStr userId) (JStr ''clicker'') (JNum 30) = ((200, m2), rows2) \<and>
          (\<forall>s \<in> scores_of rows userId ''clicker''. s \<le> 50)"
  let ?S = "scores_of rows userId ''clicker''"
  have r1: "rows1 = rows @ [\<lparr>user_id = userId, game_type = ''clicker'', score = 50, played_at = t1\<rparr>]"
    using h recordScore_200(1) [of db t1 rows "JStr userId" "JStr ''clicker''" "JNum 50" m1 rows1]
    by simp
  have r2: "rows2 = rows1 @ [\<lparr>user_id = userId, game_type = ''clicker'', score = 30, played_at = t2\<rparr>]"
    using h recordScore_200(1) [of db t2 rows1 "JStr userId" "JStr ''clicker''" "JNum 30" m2 rows2]
    by simp
  have S2: "scores_of rows2 userId ''clicker'' = insert 30 (insert 50 ?S)"
    by (auto simp: r1 r2 scores_of_append scores_of_Cons scores_of_Nil)
  have "Max (insert 30 (insert 50 ?S)) = 50"
  proof (rule Max_eqI)
    show "finite (insert 30 (insert 50 ?S))" using finite_scores_of by simp
    show "y \<le> 50" if "y \<in> insert 30 (insert 50 ?S)" for y using that h by auto
    show "50 \<in> insert 30 (insert 50 ?S)" by simp
  qed
  then show "\<exists>st. getStats db rows2 userId = (200, Stats st) \<and> bestClickerScore st = JNum 50"
    using getStats_answers [OF assms, of rows2] S2 by simp
qed

theorem best_clicker_is_max_witness:
  "answers stable_db ''u1'' \<and>
   recordScore stable_db 1 [] (JStr ''u1'') (JStr ''clicker'') (JNum 50)
     = ((200, Message ''Game score saved successfully''),
        [\<lparr>user_id = ''u1'', game_type = ''clicker'', score = 50, played_at = 1\<rparr>]) \<and>
   recordScore stable_db 2 [\<lparr>user_id = ''u1'', game_type = ''clicker'', score = 50, played_at = 1\<rparr>]
       (JStr ''u1'') (JStr ''clicker'') (JNum 30)
     = ((200, Message ''Game score saved successfully''),
        [\<lparr>user_id = ''u1'', game_type = ''clicker'', score = 50, played_at = 1\<rparr>,
         \<lparr>user_id = ''u1'', game_type = ''clicker'', score = 30, played_at = 2\<rparr>]) \<and>
   scores_of [] ''u1'' ''clicker'' = {} \<and>
   (\<exists>st. getStats stable_db
       [\<lparr>user_id = ''u1'', game_type = ''clicker'', score = 50, played_at = 1\<rparr>,
        \<lparr>user_id = ''u1'', game_type = ''clicker'', score = 30, played_at = 2\<rparr>] ''u1''
         = (200, Stats st) \<and> bestClickerScore st = JNum 50)"
proof -
  let ?r50 = "\<lparr>user_id = ''u1'', game_type = ''clicker'', score = 50, played_at = 1\<rparr>"
  let ?r30 = "\<lparr>user_id = ''u1'', game_type = ''clicker'', score = 30, played_at = 2\<rparr>"
  let ?ok = "Message ''Game score saved successfully''"
  have a: "answers stable_db ''u1''"
    by (simp add: answers_def stable_db_def)
  have h1: "recordScore stable_db 1 [] (JStr ''u1'') (JStr ''clicker'') (JNum 50) = ((200, ?ok), [?r50])"
    by (simp add: recordScore_def insert_game_score_def stable_db_def)
  have h2: "recordScore stable_db 2 [?r50] (JStr ''u1'') (JStr ''clicker'') (JNum 30)
              = ((200, ?ok), [?r50, ?r30])"
    by (simp add: recordScore_def insert_game_score_def stable_db_def)
  have h3: "scores_of [] ''u1'' ''clicker'' = {}"
    by (simp add: scores_of_def)
  then have "\<forall>s \<in> scores_of [] ''u1'' ''clicker''. s \<le> 50"
    by simp
  with best_clicker_is_max [OF a, of "[]" 1 ?ok "[?r50]" 2 ?ok "[?r50, ?r30]"] h1 h2
  have "\<exists>st. getStats stable_db [?r50, ?r30] ''u1'' = (200, Stats st) \<and> bestClickerScore st = JNum 50"
    by blast
  with a h1 h2 h3 show ?thesis by blast
qed

text \<open>
  C2: whenever the database answers, \<open>bestMemoryMoves\<close> is the smallest score among the
  user's rows with game type \<open>memory\<close>, and 0 when there is none. In particular, when
  the scores 12 and then 20 are recorded for a user with no earlier memory score below
  12, \<open>getStats\<close> reports 12.
\<close>

theorem best_memory_is_min:
  assumes "answers db userId"
  shows "(\<exists>st. getStats db rows userId = (200, Stats st) \<and>
            bestMemoryMoves st =
              JNum (if scores_of rows userId ''memory'' = {} then 0
                    else Min (scores_of rows userId ''memory''))) \<and>
         (recordScore db t1 rows (JStr userId) (JStr ''memory'') (JNum 12) = ((200, m1), rows1) \<and>
          recordScore db t2 rows1 (JStr userId) (JStr ''memory'') (JNum 20) = ((200, m2), rows2) \<and>
          (\<forall>s \<in> scores_of rows userId ''memory''. 12 \<le> s) \<longrightarrow>
          (\<exists>st. getStats db rows2 userId = (200, Stats st) \<and> bestMemoryMoves st = JNum 12))"
proof (intro conjI impI)
  show "\<exists>st. getStats db rows userId = (200, Stats st) \<and>
            bestMemoryMoves st =
              JNum (if scores_of rows userId ''memory'' = {} then 0
                    else Min (scores_of rows userId ''memory''))"
    using getStats_answers [OF assms, of rows] by simp
next
  assume h: "recordScore db t1 rows (JStr userId) (JStr ''memory'') (JNum 12) = ((200, m1), rows1) \<and>
          recordScore db t2 rows1 (JStr userId) (JStr ''memory'') (JNum 20) = ((200, m2), rows2) \<and>
          (\<forall>s \<in> scores_of rows userId ''memory''. 12 \<le> s)"
  let ?S = "scores_of rows userId ''memory''"
  have r1: "rows1 = rows @ [\<lparr>user_id = userId, game_type = ''memory'', score = 12, played_at = t1\<rparr>]"
    using h recordScore_200(1) [of db t1 rows "JStr userId" "JStr ''memory''" "JNum 12" m1 rows1]
    by simp
  have r2: "rows2 = rows1 @ [\<lparr>user_id = userId, game_type = ''memory'', score = 20, played_at = t2\<rparr>]"
    using h recordScore_200(1) [of db t2 rows1 "JStr userId" "JStr ''memory''" "JNum 20" m2 rows2]
    by simp
  have S2: "scores_of rows2 userId ''memory'' = insert 20 (insert 12 ?S)"
    by (auto simp: r1 r2 scores_of_append scores_of_Cons scores_of_Nil)
  have "Min (insert 20 (insert 12 ?S)) = 12"
  proof (rule Min_eqI)
    show "finite (insert 20 (insert 12 ?S))" using finite_scores_of by simp
    show "12 \<le> y" if "y \<in> insert 20 (insert 12 ?S)" for y using that h by auto
    show "12 \<in> insert 20 (insert 12 ?S)" by simp
  qed
  then show "\<exists>st. getStats db rows2 userId = (200, Stats st) \<and> bestMemoryMoves st = JNum 12"
    using getStats_answers [OF assms, of rows2] S2 by simp
qed

theorem best_memory_is_min_witness:
  "answers stable_db ''u1'' \<and>
   recordScore stable_db 1 [] (JStr ''u1'') (JStr ''memory'') (JNum 12)
     = ((200, Message ''Game score saved successfully''),
        [\<lparr>user_id = ''u1'', game_type = ''memory'', score = 12, played_at = 1\<rparr>]) \<and>
   recordScore stable_db 2 [\<lparr>user_id = ''u1'', game_type = ''memory'', score = 12, played_at = 1\<rparr>]
       (JStr ''u1'') (JStr ''memory'') (JNum 20)
     = ((200, Message ''Game score saved successfully''),
        [\<lparr>user_id = ''u1'', game_type = ''memory'', score = 12, played_at = 1\<rparr>,
         \<lparr>user_id = ''u1'', game_type = ''memory'', score = 20, played_at = 2\<rparr>]) \<and>
   scores_of [] ''u1'' ''memory'' = {} \<and>
   (\<exists>st. getStats stable_db
       [\<lparr>user_id = ''u1'', game_type = ''memory'', score = 12, played_at = 1\<rparr>,
        \<lparr>user_id = ''u1'', game_type = ''memory'', score = 20, played_at = 2\<rparr>] ''u1''
         = (200, Stats st) \<and> bestMemoryMoves st = JNum 12)"
proof -
  let ?r12 = "\<lparr>user_id = ''u1'', game_type = ''memory'', score = 12, played_at = 1\<rparr>"
  let ?r20 = "\<lparr>user_id = ''u1'', game_type = ''memory'', score = 20, played_at = 2\<rparr>"
  let ?ok = "Message ''Game score saved successfully''"
  have a: "answers stable_db ''u1''"
    by (simp add: answers_def stable_db_def)
  have h1: "recordScore stable_db 1 [] (JStr ''u1'') (JStr ''memory'') (JNum 12) = ((200, ?ok), [?r12])"
    by (simp add: recordScore_def insert_game_score_def stable_db_def)
  have h2: "recordScore stable_db 2 [?r12] (JStr ''u1'') (JStr ''memory'') (JNum 20)
              = ((200, ?ok), [?r12, ?r20])"
    by (simp add: recordScore_def insert_game_score_def stable_db_def)
  have h3: "scores_of [] ''u1'' ''memory'' = {}"
    by (simp add: scores_of_def)
  then have "\<forall>s \<in> scores_of [] ''u1'' ''memory''. 12 \<le> s"
    by simp
  with best_memory_is_min [OF a, of "[]" 1 ?ok "[?r12]" 2 ?ok "[?r12, ?r20]"] h1 h2
  have "\<exists>st. getStats stable_db [?r12, ?r20] ''u1'' = (200, Stats st) \<and> bestMemoryMoves st = JNum 12"
    by blast
  with a h1 h2 h3 show ?thesis by blast
qed

lemma order_by_ok_Nil: "order_by_ok db [] \<Longrightarrow> order_by db [] = []"
  by (simp add: order_by_ok_def)

text \<open>
  C6: the stats handler never looks a user up. Whenever the database answers, the
  response is a snapshot, and for a user without rows it is
  \<open>{totalGames: 0, bestClickerScore: 0, bestMemoryMoves: 0, recentGames: []}\<close>.
\<close>

theorem stats_without_existence_check:
  assumes "answers db userId"
  shows "(\<exists>st. getStats db rows userId = (200, Stats st)) \<and>
         (records_of rows userId = [] \<and> order_by_ok db [] \<longrightarrow>
          getStats db rows userId =
            (200, Stats \<lparr>totalGames = JNum 0, bestClickerScore = JNum 0,
                         bestMemoryMoves = JNum 0, recentGames = []\<rparr>))"
proof (intro conjI impI)
  show "\<exists>st. getStats db rows userId = (200, Stats st)"
    using getStats_answers [OF assms, of rows] by simp
next
  assume h: "records_of rows userId = [] \<and> order_by_ok db []"
  then have none: "\<forall>r \<in> set rows. user_id r \<noteq> userId"
    by (auto simp: records_of_def filter_empty_conv)
  then have "scores_of rows userId g = {}" for g
    by (auto simp: scores_of_def)
  then show "getStats db rows userId =
            (200, Stats \<lparr>totalGames = JNum 0, bestClickerScore = JNum 0,
                         bestMemoryMoves = JNum 0, recentGames = []\<rparr>)"
    using getStats_answers [OF assms, of rows] h order_by_ok_Nil [of db] by simp
qed

theorem stats_without_existence_check_witness:
  "answers stable_db ''nobody'' \<and>
   records_of [\<lparr>user_id = ''u1'', game_type = ''clicker'', score = 7, played_at = 1\<rparr>] ''nobody'' = [] \<and>
   order_by_ok stable_db [] \<and>
   getStats stable_db [\<lparr>user_id = ''u1'', game_type = ''clicker'', score = 7, played_at = 1\<rparr>] ''nobody'' =
     (200, Stats \<lparr>totalGames = JNum 0, bestClickerScore = JNum 0,
                  bestMemoryMoves = JNum 0, recentGames = []\<rparr>)"
proof -
  let ?rows = "[\<lparr>user_id = ''u1'', game_type = ''clicker'', score = 7, played_at = 1\<rparr>]"
  have a: "answers stable_db ''nobody''"
    by (simp add: answers_def stable_db_def)
  have e: "records_of ?rows ''nobody'' = []"
    by (simp add: records_of_def)
  have o: "order_by_ok stable_db []"
    by (simp add: order_by_ok_def newest_first_def stable_db_def)
  from stats_without_existence_check [OF a, of ?rows] e o a show ?thesis
    by blast
qed

subsection \<open>Recording a score\<close>

text \<open>
  C7: a successful \<open>recordScore\<close> of a string user, a string game type and an integer
  score appends exactly that one row, and \<open>totalGames\<close> of the user grows by one. A second
  successful call with the same arguments appends a second row: nothing is deduplicated.
\<close>

theorem record_score_appends_one:
  assumes ok1: "recordScore db now rows (JStr userId) (JStr gameType) (JNum n) = ((200, m), rows')"
    and ans: "answers db userId"
  shows "rows' = rows @ [\<lparr>user_id = userId, game_type = gameType, score = n, played_at = now\<rparr>] \<and>
         userId \<noteq> [] \<and> gameType \<noteq> [] \<and>
         (\<exists>st st' k. getStats db rows userId = (200, Stats st) \<and> totalGames st = JNum k \<and>
                      getStats db rows' userId = (200, Stats st') \<and> totalGames st' = JNum (k + 1)) \<and>
         (recordScore db now' rows' (JStr userId) (JStr gameType) (JNum n) = ((200, m'), rows'') \<longrightarrow>
          rows'' = rows @ [\<lparr>user_id = userId, game_type = gameType, score = n, played_at = now\<rparr>,
                           \<lparr>user_id = userId, game_type = gameType, score = n, played_at = now'\<rparr>] \<and>
          length rows'' = length rows + 2 \<and>
          (\<exists>st st'' k. getStats db rows userId = (200, Stats st) \<and> totalGames st = JNum k \<and>
                      getStats db rows'' userId = (200, Stats st'') \<and> totalGames st'' = JNum (k + 2)))"
proof -
  let ?r = "\<lparr>user_id = userId, game_type = gameType, score = n, played_at = now\<rparr>"
  let ?r' = "\<lparr>user_id = userId, game_type = gameType, score = n, played_at = now'\<rparr>"
  have r: "rows' = rows @ [?r]"
    using recordScore_200(1) [OF ok1] by simp
  have ne: "userId \<noteq> []" "gameType \<noteq> []"
    using recordScore_200(2,3) [OF ok1] by simp_all
  have one: "\<exists>st st' k. getStats db rows userId = (200, Stats st) \<and> totalGames st = JNum k \<and>
                      getStats db rows' userId = (200, Stats st') \<and> totalGames st' = JNum (k + 1)"
    using getStats_answers [OF ans, of rows] getStats_answers [OF ans, of rows']
    by (simp add: r records_of_def)
  have two: "rows'' = rows @ [?r, ?r'] \<and> length rows'' = length rows + 2 \<and>
          (\<exists>st st'' k. getStats db rows userId = (200, Stats st) \<and> totalGames st = JNum k \<and>
                      getStats db rows'' userId = (200, Stats st'') \<and> totalGames st'' = JNum (k + 2))"
    if ok2: "recordScore db now' rows' (JStr userId) (JStr gameType) (JNum n) = ((200, m'), rows'')"
  proof -
    have r2: "rows'' = rows @ [?r, ?r']"
      using recordScore_200(1) [OF ok2] r by simp
    have "\<exists>st st'' k. getStats db rows userId = (200, Stats st) \<and> totalGames st = JNum k \<and>
                      getStats db rows'' userId = (200, Stats st'') \<and> totalGames st'' = JNum (k + 2)"
      using getStats_answers [OF ans, of rows] getStats_answers [OF ans, of rows'']
      by (simp add: r2 records_of_def)
    with r2 show "rows'' = rows @ [?r, ?r'] \<and> length rows'' = length rows + 2 \<and>
          (\<exists>st st'' k. getStats db rows userId = (200, Stats st) \<and> totalGames st = JNum k \<and>
                      getStats db rows'' userId = (200, Stats st'') \<and> totalGames st'' = JNum (k + 2))"
      by simp
  qed
  show ?thesis using r ne one two by blast
qed

theorem record_score_appends_one_witness:
  "recordScore stable_db 4 [\<lparr>user_id = ''u2'', game_type = ''memory'', score = 8, played_at = 1\<rparr>]
       (JStr ''u1'') (JStr ''clicker'') (JNum 5)
     = ((200, Message ''Game score saved successfully''),
        [\<lparr>user_id = ''u2'', game_type = ''memory'', score = 8, played_at = 1\<rparr>,
         \<lparr>user_id = ''u1'', game_type = ''clicker'', score = 5, played_at = 4\<rparr>]) \<and>
   answers stable_db ''u1'' \<and>
   recordScore stable_db 4
       [\<lparr>user_id = ''u2'', game_type = ''memory'', score = 8, played_at = 1\<rparr>,
        \<lparr>user_id = ''u1'', game_type = ''clicker'', score = 5, played_at = 4\<rparr>]
       (JStr ''u1'') (JStr ''clicker'') (JNum 5)
     = ((200, Message ''Game score saved successfully''),
        [\<lparr>user_id = ''u2'', game_type = ''memory'', score = 8, played_at = 1\<rparr>,
         \<lparr>user_id = ''u1'', game_type = ''clicker'', score = 5, played_at = 4\<rparr>,
         \<lparr>user_id = ''u1'', game_type = ''clicker'', score = 5, played_at = 4\<rparr>]) \<and>
   (\<exists>st st' st''.
      getStats stable_db [\<lparr>user_id = ''u2'', game_type = ''memory'', score = 8, played_at = 1\<rparr>] ''u1''
        = (200, Stats st) \<and> totalGames st = JNum 0 \<and>
      getStats stable_db
        [\<lparr>user_id = ''u2'', game_type = ''memory'', score = 8, played_at = 1\<rparr>,
         \<lparr>user_id = ''u1'', game_type = ''clicker'', score = 5, played_at = 4\<rparr>] ''u1''
        = (200, Stats st') \<and> totalGames st' = JNum 1 \<and>
      getStats stable_db
        [\<lparr>user_id = ''u2'', game_type = ''memory'', score = 8, played_at = 1\<rparr>,
         \<lparr>user_id = ''u1'', game_type = ''clicker'', score = 5, played_at = 4\<rparr>,
         \<lparr>user_id = ''u1'', game_type = ''clicker'', score = 5, played_at = 4\<rparr>] ''u1''
        = (200, Stats st'') \<and> totalGames st'' = JNum 2)"
proof -
  let ?old = "\<lparr>user_id = ''u2'', game_type = ''memory'', score = 8, played_at = 1\<rparr>"
  let ?new = "\<lparr>user_id = ''u1'', game_type = ''clicker'', score = 5, played_at = 4\<rparr>"
  let ?ok = "Message ''Game score saved successfully''"
  have a: "answers stable_db ''u1''"
    by (simp add: answers_def stable_db_def)
  have h1: "recordScore stable_db 4 [?old] (JStr ''u1'') (JStr ''clicker'') (JNum 5) = ((200, ?ok), [?old, ?new])"
    by (simp add: recordScore_def insert_game_score_def stable_db_def)
  have h2: "recordScore stable_db 4 [?old, ?new] (JStr ''u1'') (JStr ''clicker'') (JNum 5)
              = ((200, ?ok), [?old, ?new, ?new])"
    by (simp add: recordScore_def insert_game_score_def stable_db_def)
  have t0: "totalGames st = JNum 0" if "getStats stable_db [?old] ''u1'' = (200, Stats st)" for st
    using that getStats_answers [OF a, where rows = "[?old]"] by (simp add: records_of_def)
  from record_score_appends_one [OF h1 a, where now' = 4 and m' = ?ok and rows'' = "[?old, ?new, ?new]"] h2
  obtain st st' k st2 st'' k2 where
    g0: "getStats stable_db [?old] ''u1'' = (200, Stats st)" "totalGames st = JNum k"
    and g1: "getStats stable_db [?old, ?new] ''u1'' = (200, Stats st')" "totalGames st' = JNum (k + 1)"
    and g0': "getStats stable_db [?old] ''u1'' = (200, Stats st2)" "totalGames st2 = JNum k2"
    and g2: "getStats stable_db [?old, ?new, ?new] ''u1'' = (200, Stats st'')" "totalGames st'' = JNum (k2 + 2)"
    by blast
  have "k = 0" using t0 [OF g0(1)] g0(2) by simp
  moreover have "k2 = 0" using t0 [OF g0'(1)] g0'(2) by simp
  ultimately have "\<exists>st st' st''.
      getStats stable_db [?old] ''u1'' = (200, Stats st) \<and> totalGames st = JNum 0 \<and>
      getStats stable_db [?old, ?new] ''u1'' = (200, Stats st') \<and> totalGames st' = JNum 1 \<and>
      getStats stable_db [?old, ?new, ?new] ''u1'' = (200, Stats st'') \<and> totalGames st'' = JNum 2"
    using g0 g1 g2 by auto
  with a h1 h2 show ?thesis by blast
qed

text \<open>
  C8: a \<open>recordScore\<close> that does not answer 200 answers 400 or 500 with an error body and
  leaves the table as it was; a \<open>getStats\<close> for which any of the four statements throws
  answers 500 with the error body alone, never a snapshot.
\<close>

theorem failed_calls_change_nothing:
  "(recordScore db now rows userId gameType score_field = ((code, b), rows') \<and> code \<noteq> 200 \<longrightarrow>
      rows' = rows \<and>
      (code = 400 \<and> b = Error ''All fields are required'' \<or>
       code = 500 \<and> b = Error ''Internal server error'')) \<and>
   (\<not> answers db uid \<longrightarrow> getStats db rows uid = (500, Error ''Internal server error''))"
proof (intro conjI impI)
  assume "recordScore db now rows userId gameType score_field = ((code, b), rows') \<and> code \<noteq> 200"
  then show "rows' = rows"
    by (auto simp: recordScore_eq split: if_splits)
next
  assume "recordScore db now rows userId gameType score_field = ((code, b), rows') \<and> code \<noteq> 200"
  then show "code = 400 \<and> b = Error ''All fields are required'' \<or>
       code = 500 \<and> b = Error ''Internal server error''"
    by (auto simp: recordScore_eq split: if_splits)
next
  assume "\<not> answers db uid"
  then show "getStats db rows uid = (500, Error ''Internal server error'')"
    by (auto simp: getStats_def answers_def totalGamesQuery_def bestClickerQuery_def
        bestMemoryQuery_def recentGamesQuery_def)
qed

theorem failed_calls_change_nothing_witness:
  "recordScore failing_db 3 [\<lparr>user_id = ''u1'', game_type = ''memory'', score = 8, played_at = 1\<rparr>]
       (JStr ''u1'') (JStr ''clicker'') (JNum 5)
     = ((500, Error ''Internal server error''),
        [\<lparr>user_id = ''u1'', game_type = ''memory'', score = 8, played_at = 1\<rparr>]) \<and>
   (500 :: nat) \<noteq> 200 \<and>
   \<not> answers failing_db ''u1'' \<and>
   getStats failing_db [\<lparr>user_id = ''u1'', game_type = ''memory'', score = 8, played_at = 1\<rparr>] ''u1''
     = (500, Error ''Internal server error'')"
proof -
  let ?old = "\<lparr>user_id = ''u1'', game_type = ''memory'', score = 8, played_at = 1\<rparr>"
  have h: "recordScore failing_db 3 [?old] (JStr ''u1'') (JStr ''clicker'') (JNum 5)
             = ((500, Error ''Internal server error''), [?old])"
    by (simp add: recordScore_def insert_game_score_def failing_db_def stable_db_def)
  have n: "\<not> answers failing_db ''u1''"
    by (simp add: answers_def failing_db_def stable_db_def)
  from failed_calls_change_nothing [where db = failing_db and now = 3 and rows = "[?old]"
      and userId = "JStr ''u1''" and gameType = "JStr ''clicker''" and score_field = "JNum 5"
      and code = 500 and b = "Error ''Internal server error''" and rows' = "[?old]"
      and uid = "''u1''"] h n
  show ?thesis by simp
qed

lemma prefix_step: "prefix rows (snd (step db rows c))"
  by (cases c) (auto simp: recordScore_eq)

lemma prefix_run: "prefix rows (run db rows cs)"
proof (induction cs arbitrary: rows)
  case Nil
  show ?case by simp
next
  case (Cons c cs)
  have "prefix rows (snd (step db rows c))" by (rule prefix_step)
  also have "prefix (snd (step db rows c)) (run db (snd (step db rows c)) cs)" by (rule Cons.IH)
  finally show ?case by simp
qed

text \<open>
  C9: the table only grows at its end. After any sequence of \<open>recordScore\<close> and \<open>getStats\<close>
  calls the rows written before are a prefix of the table, each at its place and with its
  fields as they were; a \<open>getStats\<close> leaves the table as it is, and a successful
  \<open>recordScore\<close> adds one row behind the others.
\<close>

theorem written_records_never_change:
  "prefix rows (run db rows calls) \<and>
   (i < length rows \<longrightarrow> run db rows calls ! i = rows ! i) \<and>
   snd (step db rows (GetStats uid)) = rows \<and>
   (step db rows (RecordScore now userId gameType score_field) = ((200, m), rows') \<longrightarrow>
      rows' = rows @ [\<lparr>user_id = text_in db userId, game_type = text_in db gameType,
                       score = int_in db score_field, played_at = now\<rparr>])"
proof (intro conjI impI)
  show p: "prefix rows (run db rows calls)" by (rule prefix_run)
  show "run db rows calls ! i = rows ! i" if "i < length rows"
    using p that by (auto simp: prefix_def nth_append)
  show "snd (step db rows (GetStats uid)) = rows" by simp
  show "rows' = rows @ [\<lparr>user_id = text_in db userId, game_type = text_in db gameType,
                       score = int_in db score_field, played_at = now\<rparr>]"
    if "step db rows (RecordScore now userId gameType score_field) = ((200, m), rows')"
    using that recordScore_200(1) [of db now rows userId gameType score_field m rows'] by simp
qed

theorem written_records_never_change_witness:
  "(0 :: nat) < length [\<lparr>user_id = ''u1'', game_type = ''memory'', score = 8, played_at = 1\<rparr>] \<and>
   step stable_db [\<lparr>user_id = ''u1'', game_type = ''memory'', score = 8, played_at = 1\<rparr>]
       (RecordScore 5 (JStr ''u2'') (JStr ''clicker'') (JNum 3))
     = ((200, Message ''Game score saved successfully''),
        [\<lparr>user_id = ''u1'', game_type = ''memory'', score = 8, played_at = 1\<rparr>,
         \<lparr>user_id = ''u2'', game_type = ''clicker'', score = 3, played_at = 5\<rparr>]) \<and>
   run stable_db [\<lparr>user_id = ''u1'', game_type = ''memory'', score = 8, played_at = 1\<rparr>]
       [RecordScore 5 (JStr ''u2'') (JStr ''clicker'') (JNum 3), GetStats ''u1'',
        RecordScore 6 (JStr ''u1'') JUndefined (JNum 1)]
     = [\<lparr>user_id = ''u1'', game_type = ''memory'', score = 8, played_at = 1\<rparr>,
        \<lparr>user_id = ''u2'', game_type = ''clicker'', score = 3, played_at = 5\<rparr>] \<and>
   run stable_db [\<lparr>user_id = ''u1'', game_type = ''memory'', score = 8, played_at = 1\<rparr>]
       [RecordScore 5 (JStr ''u2'') (JStr ''clicker'') (JNum 3), GetStats ''u1'',
        RecordScore 6 (JStr ''u1'') JUndefined (JNum 1)] ! 0
     = \<lparr>user_id = ''u1'', game_type = ''memory'', score = 8, played_at = 1\<rparr>"
proof -
  let ?old = "\<lparr>user_id = ''u1'', game_type = ''memory'', score = 8, played_at = 1\<rparr>"
  let ?new = "\<lparr>user_id = ''u2'', game_type = ''clicker'', score = 3, played_at = 5\<rparr>"
  let ?calls = "[RecordScore 5 (JStr ''u2'') (JStr ''clicker'') (JNum 3), GetStats ''u1'',
        RecordScore 6 (JStr ''u1'') JUndefined (JNum 1)]"
  have l: "(0 :: nat) < length [?old]" by simp
  have s: "step stable_db [?old] (RecordScore 5 (JStr ''u2'') (JStr ''clicker'') (JNum 3))
             = ((200, Message ''Game score saved successfully''), [?old, ?new])"
    by (simp add: recordScore_def insert_game_score_def stable_db_def)
  have r: "run stable_db [?old] ?calls = [?old, ?new]"
    by (simp add: recordScore_def insert_game_score_def stable_db_def)
  from written_records_never_change [where rows = "[?old]" and db = stable_db and calls = ?calls
      and i = 0 and uid = "''u1''" and now = 5 and userId = "JStr ''u2''"
      and gameType = "JStr ''clicker''" and score_field = "JNum 3"
      and m = "Message ''Game score saved successfully''" and rows' = "[?old, ?new]"] l s
  have "run stable_db [?old] ?calls ! 0 = [?old] ! 0" by blast
  with l s r show ?thesis by simp
qed

text \<open>
  C10: the validation tests \<open>userId\<close> and \<open>gameType\<close> for truthiness and \<open>score\<close> against
  \<^verbatim>\<open>undefined\<close> alone. A falsy user or game type (the empty string, 0, \<^verbatim>\<open>null\<close>,
  \<^verbatim>\<open>false\<close>) is answered with 400 whatever the score; with a truthy user and game type,
  every score other than \<^verbatim>\<open>undefined\<close>, such as \<^verbatim>\<open>null\<close> or the empty string, goes to
  the \<^verbatim>\<open>INSERT\<close> as it is, and the answer is the outcome of that statement.
\<close>

theorem validation_is_truthiness:
  "(fst (recordScore db now rows userId gameType score_field) = (400, Error ''All fields are required'')
      \<longleftrightarrow> \<not> truthy userId \<or> \<not> truthy gameType \<or> score_field = JUndefined) \<and>
   \<not> truthy (JStr []) \<and> \<not> truthy (JNum 0) \<and> \<not> truthy JNull \<and> \<not> truthy (JBool False) \<and>
   (\<not> truthy userId \<or> \<not> truthy gameType \<longrightarrow>
      recordScore db now rows userId gameType score_field
        = ((400, Error ''All fields are required''), rows)) \<and>
   (truthy userId \<and> truthy gameType \<and> score_field \<noteq> JUndefined \<longrightarrow>
      recordScore db now rows userId gameType score_field
        = (case insert_game_score db now userId gameType score_field rows of
             None \<Rightarrow> ((500, Error ''Internal server error''), rows)
           | Some rows' \<Rightarrow> ((200, Message ''Game score saved successfully''), rows')) \<and>
      insert_game_score db now userId gameType score_field rows
        = (if throws db InsertScore [userId, gameType, score_field] then None
           else Some (rows @ [\<lparr>user_id = text_in db userId, game_type = text_in db gameType,
                               score = int_in db score_field, played_at = now\<rparr>])))"
  by (auto simp: recordScore_def insert_game_score_def)

theorem validation_is_truthiness_witness:
  "\<not> truthy (JNum 0) \<and>
   recordScore stable_db 2 [] (JNum 0) (JStr ''clicker'') (JNum 5)
     = ((400, Error ''All fields are required''), []) \<and>
   truthy (JStr ''u1'') \<and> truthy (JStr ''clicker'') \<and> JNull \<noteq> JUndefined \<and>
   recordScore stable_db 2 [] (JStr ''u1'') (JStr ''clicker'') JNull
     = ((200, Message ''Game score saved successfully''),
        [\<lparr>user_id = ''u1'', game_type = ''clicker'', score = 0, played_at = 2\<rparr>]) \<and>
   recordScore failing_db 2 [] (JStr ''u1'') (JStr ''clicker'') (JStr '''')
     = ((500, Error ''Internal server error''), [])"
proof -
  have f: "\<not> truthy (JNum 0) \<or> \<not> truthy (JStr ''clicker'')" by simp
  have t: "truthy (JStr ''u1'') \<and> truthy (JStr ''clicker'') \<and> JNull \<noteq> JUndefined" by simp
  have t': "truthy (JStr ''u1'') \<and> truthy (JStr ''clicker'') \<and> JStr '''' \<noteq> JUndefined" by simp
  have i: "insert_game_score stable_db 2 (JStr ''u1'') (JStr ''clicker'') JNull []
             = Some [\<lparr>user_id = ''u1'', game_type = ''clicker'', score = 0, played_at = 2\<rparr>]"
    by (simp add: insert_game_score_def stable_db_def)
  have i': "insert_game_score failing_db 2 (JStr ''u1'') (JStr ''clicker'') (JStr '''') [] = None"
    by (simp add: insert_game_score_def failing_db_def stable_db_def)
  have 1: "recordScore stable_db 2 [] (JNum 0) (JStr ''clicker'') (JNum 5)
     = ((400, Error ''All fields are required''), [])"
    using validation_is_truthiness [where db = stable_db and now = 2 and rows = "[]" and userId = "JNum 0"
        and gameType = "JStr ''clicker''" and score_field = "JNum 5"] f
    by blast
  have 2: "recordScore stable_db 2 [] (JStr ''u1'') (JStr ''clicker'') JNull
     = ((200, Message ''Game score saved successfully''),
        [\<lparr>user_id = ''u1'', game_type = ''clicker'', score = 0, played_at = 2\<rparr>])"
    using validation_is_truthiness [where db = stable_db and now = 2 and rows = "[]"
        and userId = "JStr ''u1''" and gameType = "JStr ''clicker''" and score_field = JNull] t i
    by simp
  have 3: "recordScore failing_db 2 [] (JStr ''u1'') (JStr ''clicker'') (JStr '''')
     = ((500, Error ''Internal server error''), [])"
    using validation_is_truthiness [where db = failing_db and now = 2 and rows = "[]"
        and userId = "JStr ''u1''" and gameType = "JStr ''clicker''" and score_field = "JStr ''''"] t' i'
    by simp
  from 1 2 3 show ?thesis by simp
qed

text \<open>
  C3, as the code has it: \<open>recordScore\<close> answers with the validation error exactly when
  \<open>userId\<close> is falsy, \<open>gameType\<close> is falsy or \<open>score\<close> is absent. For a user and a game
  type that are strings or absent, falsy is missing or empty. An absent score is missing;
  the score 0 is present: the call then succeeds, the row is written, \<open>getStats\<close> counts it,
  and when it is the user's newest row it heads \<open>recentGames\<close>.
\<close>

theorem validation_error_iff_falsy_or_absent:
  "(fst (recordScore db now rows userId gameType score_field) = (400, Error ''All fields are required'')
      \<longleftrightarrow> \<not> truthy userId \<or> \<not> truthy gameType \<or> score_field = JUndefined) \<and>
   (text_field userId \<and> text_field gameType \<longrightarrow>
      (\<not> truthy userId \<longleftrightarrow> missing_or_empty userId) \<and>
      (\<not> truthy gameType \<longleftrightarrow> missing_or_empty gameType)) \<and>
   recordScore db now rows userId gameType JUndefined
      = ((400, Error ''All fields are required''), rows) \<and>
   (u \<noteq> [] \<and> g \<noteq> [] \<and> \<not> throws db InsertScore [JStr u, JStr g, JNum 0] \<and> answers db u \<and>
    order_by_ok db (records_of rows u @ [\<lparr>user_id = u, game_type = g, score = 0, played_at = now\<rparr>]) \<and>
    (\<forall>r \<in> set (records_of rows u). played_at r < now) \<longrightarrow>
    recordScore db now rows (JStr u) (JStr g) (JNum 0)
      = ((200, Message ''Game score saved successfully''),
         rows @ [\<lparr>user_id = u, game_type = g, score = 0, played_at = now\<rparr>]) \<and>
    (\<exists>st tl. getStats db (rows @ [\<lparr>user_id = u, game_type = g, score = 0, played_at = now\<rparr>]) u
                = (200, Stats st) \<and>
             totalGames st = JNum (int (length (records_of rows u)) + 1) \<and>
             recentGames st = (g, 0, now) # tl))"
proof (intro conjI impI)
  show "fst (recordScore db now rows userId gameType score_field) = (400, Error ''All fields are required'')
      \<longleftrightarrow> \<not> truthy userId \<or> \<not> truthy gameType \<or> score_field = JUndefined"
    by (auto simp: recordScore_eq)
next
  assume "text_field userId \<and> text_field gameType"
  then show "\<not> truthy userId \<longleftrightarrow> missing_or_empty userId"
    by (cases userId) (auto simp: missing_or_empty_def)
next
  assume "text_field userId \<and> text_field gameType"
  then show "\<not> truthy gameType \<longleftrightarrow> missing_or_empty gameType"
    by (cases gameType) (auto simp: missing_or_empty_def)
next
  show "recordScore db now rows userId gameType JUndefined
            = ((400, Error ''All fields are required''), rows)"
    by (simp add: recordScore_eq)
next
  let ?new = "\<lparr>user_id = u, game_type = g, score = 0, played_at = now\<rparr>"
  assume h: "u \<noteq> [] \<and> g \<noteq> [] \<and> \<not> throws db InsertScore [JStr u, JStr g, JNum 0] \<and> answers db u \<and>
          order_by_ok db (records_of rows u @ [?new]) \<and>
          (\<forall>r \<in> set (records_of rows u). played_at r < now)"
  then show "recordScore db now rows (JStr u) (JStr g) (JNum 0)
            = ((200, Message ''Game score saved successfully''), rows @ [?new])"
    by (simp add: recordScore_eq)
  have ro: "records_of (rows @ [?new]) u = records_of rows u @ [?new]"
    by (simp add: records_of_def)
  obtain tl where tl: "order_by db (records_of rows u @ [?new]) = ?new # tl"
    using newest_is_first [of db "records_of rows u" ?new] h by auto
  show "\<exists>st tl. getStats db (rows @ [?new]) u = (200, Stats st) \<and>
                   totalGames st = JNum (int (length (records_of rows u)) + 1) \<and>
                   recentGames st = (g, 0, now) # tl"
    using getStats_answers [of db u "rows @ [?new]"] h
    by (simp add: ro tl recent_columns_def)
qed

theorem validation_error_iff_falsy_or_absent_witness:
  "text_field (JStr ''u1'') \<and> text_field JUndefined \<and>
   truthy (JStr ''u1'') \<and> missing_or_empty JUndefined \<and>
   fst (recordScore stable_db 9 [\<lparr>user_id = ''u1'', game_type = ''memory'', score = 8, played_at = 1\<rparr>]
          (JStr ''u1'') JUndefined (JNum 0)) = (400, Error ''All fields are required'') \<and>
   ''u1'' \<noteq> [] \<and> ''memory'' \<noteq> [] \<and>
   \<not> throws stable_db InsertScore [JStr ''u1'', JStr ''memory'', JNum 0] \<and>
   answers stable_db ''u1'' \<and>
   order_by_ok stable_db
     (records_of [\<lparr>user_id = ''u1'', game_type = ''memory'', score = 8, played_at = 1\<rparr>] ''u1'' @
      [\<lparr>user_id = ''u1'', game_type = ''memory'', score = 0, played_at = 9\<rparr>]) \<and>
   list_all (\<lambda>r. played_at r < 9)
     (records_of [\<lparr>user_id = ''u1'', game_type = ''memory'', score = 8, played_at = 1\<rparr>] ''u1'') \<and>
   recordScore stable_db 9 [\<lparr>user_id = ''u1'', game_type = ''memory'', score = 8, played_at = 1\<rparr>]
       (JStr ''u1'') (JStr ''memory'') (JNum 0)
     = ((200, Message ''Game score saved successfully''),
        [\<lparr>user_id = ''u1'', game_type = ''memory'', score = 8, played_at = 1\<rparr>,
         \<lparr>user_id = ''u1'', game_type = ''memory'', score = 0, played_at = 9\<rparr>]) \<and>
   (\<exists>st tl. getStats stable_db
        [\<lparr>user_id = ''u1'', game_type = ''memory'', score = 8, played_at = 1\<rparr>,
         \<lparr>user_id = ''u1'', game_type = ''memory'', score = 0, played_at = 9\<rparr>] ''u1''
       = (200, Stats st) \<and> totalGames st = JNum 2 \<and> recentGames st = (''memory'', 0, 9) # tl)"
proof -
  let ?old = "\<lparr>user_id = ''u1'', game_type = ''memory'', score = 8, played_at = 1\<rparr>"
  let ?new = "\<lparr>user_id = ''u1'', game_type = ''memory'', score = 0, played_at = 9\<rparr>"
  have ty: "text_field (JStr ''u1'') \<and> text_field JUndefined" by simp
  have th: "\<not> throws stable_db InsertScore [JStr ''u1'', JStr ''memory'', JNum 0]"
    by (simp add: stable_db_def)
  have a: "answers stable_db ''u1''" by (simp add: answers_def stable_db_def)
  have o: "order_by_ok stable_db (records_of [?old] ''u1'' @ [?new])"
    by (rule order_by_ok_stable_db)
  have la: "list_all (\<lambda>r. played_at r < 9) (records_of [?old] ''u1'')"
    by (simp add: records_of_def)
  then have ba: "\<forall>r \<in> set (records_of [?old] ''u1''). played_at r < 9"
    by (simp add: list_all_iff)
  have len: "int (length (records_of [?old] ''u1'')) + 1 = 2"
    by (simp add: records_of_def)
  note T = validation_error_iff_falsy_or_absent [where db = stable_db and now = 9
      and rows = "[?old]" and userId = "JStr ''u1''" and gameType = JUndefined
      and score_field = "JNum 0" and u = "''u1''" and g = "''memory''"]
  from T ty have tm: "truthy (JStr ''u1'')" "missing_or_empty JUndefined"
    by simp_all
  from T have 1: "fst (recordScore stable_db 9 [?old] (JStr ''u1'') JUndefined (JNum 0))
        = (400, Error ''All fields are required'')"
    by simp
  from T th a o ba have 2: "recordScore stable_db 9 [?old] (JStr ''u1'') (JStr ''memory'') (JNum 0)
     = ((200, Message ''Game score saved successfully''), [?old] @ [?new])"
    and 3: "\<exists>st tl. getStats stable_db ([?old] @ [?new]) ''u1'' = (200, Stats st) \<and>
        totalGames st = JNum (int (length (records_of [?old] ''u1'')) + 1) \<and>
        recentGames st = (''memory'', 0, 9) # tl"
    by simp_all
  from 3 len have 4: "\<exists>st tl. getStats stable_db [?old, ?new] ''u1'' = (200, Stats st) \<and>
        totalGames st = JNum 2 \<and> recentGames st = (''memory'', 0, 9) # tl"
    by simp
  from ty tm 1 th a o la 2 4 show ?thesis by simp
qed

text \<open>
  The statement of C3 fails in both directions on the values a request body can hold: an
  empty-string score is an empty field and is not answered with the validation error,
  and the user 0 is answered with it although no field is missing or empty.
\<close>

theorem validation_error_counterexample:
  "missing_or_empty (JStr '''') \<and>
   recordScore failing_db 2 [] (JStr ''u1'') (JStr ''clicker'') (JStr '''')
     = ((500, Error ''Internal server error''), []) \<and>
   recordScore stable_db 2 [] (JStr ''u1'') (JStr ''clicker'') (JStr '''')
     = ((200, Message ''Game score saved successfully''),
        [\<lparr>user_id = ''u1'', game_type = ''clicker'', score = 0, played_at = 2\<rparr>]) \<and>
   \<not> missing_or_empty (JNum 0) \<and> \<not> missing_or_empty (JStr ''clicker'') \<and>
   \<not> missing_or_empty (JNum 5) \<and>
   recordScore stable_db 2 [] (JNum 0) (JStr ''clicker'') (JNum 5)
     = ((400, Error ''All fields are required''), [])"
  by (simp add: missing_or_empty_def recordScore_def insert_game_score_def
      failing_db_def stable_db_def)

subsection \<open>The order of the recent games\<close>

lemma filter_distinct_key:
  "distinct (map f xs) \<Longrightarrow> k \<in> set xs \<Longrightarrow> filter (\<lambda>x. f k = f x) xs = [k]"
proof (induction xs)
  case Nil
  then show ?case by simp
next
  case (Cons a xs)
  show ?case
  proof (cases "k = a")
    case True
    have "filter (\<lambda>x. f a = f x) xs = []"
      using Cons.prems(1) by (auto simp: filter_empty_conv)
    with True show ?thesis by simp
  next
    case False
    with Cons.prems have k: "k \<in> set xs" and d: "distinct (map f xs)" and "f a \<notin> f ` set xs"
      by auto
    then have "f k \<noteq> f a" by (metis imageI)
    with Cons.IH [OF d k] show ?thesis by simp
  qed
qed

lemma newest_first_unique:
  assumes m: "mset S = mset U" and nf: "newest_first S" and d: "distinct (map played_at U)"
  shows "S = rev (sort_key played_at U)"
proof -
  have dS: "distinct (map played_at S)"
  proof -
    have "mset (map played_at S) = mset (map played_at U)" using m by simp
    then show ?thesis using d by (metis mset_eq_imp_distinct_iff)
  qed
  have srt: "sorted (map played_at (rev S))"
    using nf by (simp add: newest_first_def sorted_wrt_rev rev_map [symmetric] sorted_map sorted_wrt_map)
  have "sort_key played_at U = rev S"
  proof (rule properties_for_sort_key)
    show "mset (rev S) = mset U" using m by simp
    show "sorted (map played_at (rev S))" by (rule srt)
    show "filter (\<lambda>x. played_at k = played_at x) (rev S) = filter (\<lambda>x. played_at k = played_at x) U"
      if "k \<in> set (rev S)" for k
    proof -
      have kS: "k \<in> set (rev S)" by (rule that)
      have kU: "k \<in> set U" using that m by (metis mset_eq_setD set_rev)
      have "distinct (map played_at (rev S))" using dS by (simp add: rev_map [symmetric])
      then have "filter (\<lambda>x. played_at k = played_at x) (rev S) = [k]"
        using kS by (rule filter_distinct_key)
      moreover have "filter (\<lambda>x. played_at k = played_at x) U = [k]"
        using d kU by (rule filter_distinct_key)
      ultimately show ?thesis by simp
    qed
  qed
  then show ?thesis by simp
qed

text \<open>
  C4, as the code has it: \<open>recentGames\<close> holds the first ten of the user's rows in an
  arrangement in which \<open>played_at\<close> never increases, so no row left out is newer than a
  row shown, and all rows when there are at most ten. Which of several rows with equal
  \<open>played_at\<close> comes first is the database's choice. When the user's \<open>played_at\<close> values
  are pairwise distinct, the list is the one the specification describes.
\<close>

theorem recent_games_top_ten:
  assumes ans: "answers db userId" and ok: "order_by_ok db (records_of rows userId)"
  shows "\<exists>st shown rest.
           getStats db rows userId = (200, Stats st) \<and>
           recentGames st = map recent_columns shown \<and>
           length (recentGames st) = min 10 (length (records_of rows userId)) \<and>
           mset (shown @ rest) = mset (records_of rows userId) \<and>
           newest_first (shown @ rest) \<and>
           (distinct (map played_at (records_of rows userId)) \<longrightarrow>
              recentGames st = spec_recentGames rows userId)"
proof -
  let ?U = "records_of rows userId"
  let ?S = "order_by db ?U"
  have m: "mset ?S = mset ?U" and nf: "newest_first ?S"
    using ok by (simp_all add: order_by_ok_def)
  have len: "length ?S = length ?U" using m by (rule mset_eq_length)
  have g: "getStats db rows userId =
     (200, Stats \<lparr>totalGames = JNum (int (length ?U)),
        bestClickerScore = JNum (if scores_of rows userId ''clicker'' = {} then 0
                                 else Max (scores_of rows userId ''clicker'')),
        bestMemoryMoves = JNum (if scores_of rows userId ''memory'' = {} then 0
                                else Min (scores_of rows userId ''memory'')),
        recentGames = map recent_columns (take 10 ?S)\<rparr>)"
    by (rule getStats_answers [OF ans])
  have u: "map recent_columns (take 10 ?S) = spec_recentGames rows userId"
    if "distinct (map played_at ?U)"
    using newest_first_unique [OF m nf that] by (simp add: spec_recentGames_def)
  show ?thesis
    apply (rule exI [where x = "\<lparr>totalGames = JNum (int (length ?U)),
        bestClickerScore = JNum (if scores_of rows userId ''clicker'' = {} then 0
                                 else Max (scores_of rows userId ''clicker'')),
        bestMemoryMoves = JNum (if scores_of rows userId ''memory'' = {} then 0
                                else Min (scores_of rows userId ''memory'')),
        recentGames = map recent_columns (take 10 ?S)\<rparr>"])
    apply (rule exI [where x = "take 10 ?S"])
    apply (rule exI [where x = "drop 10 ?S"])
    using g m nf len u by simp
qed

theorem recent_games_top_ten_witness:
  "answers stable_db ''u1'' \<and>
   order_by_ok stable_db (records_of
      (map (\<lambda>i. \<lparr>user_id = ''u1'', game_type = ''clicker'', score = int i, played_at = i\<rparr>) [1..<12])
      ''u1'') \<and>
   distinct (map played_at (records_of
      (map (\<lambda>i. \<lparr>user_id = ''u1'', game_type = ''clicker'', score = int i, played_at = i\<rparr>) [1..<12])
      ''u1'')) \<and>
   (\<exists>st. getStats stable_db
      (map (\<lambda>i. \<lparr>user_id = ''u1'', game_type = ''clicker'', score = int i, played_at = i\<rparr>) [1..<12])
      ''u1'' = (200, Stats st) \<and>
      length (recentGames st) = 10 \<and>
      recentGames st =
        [(''clicker'', 11, 11), (''clicker'', 10, 10), (''clicker'', 9, 9), (''clicker'', 8, 8),
         (''clicker'', 7, 7), (''clicker'', 6, 6), (''clicker'', 5, 5), (''clicker'', 4, 4),
         (''clicker'', 3, 3), (''clicker'', 2, 2)])"
proof -
  let ?rows = "map (\<lambda>i. \<lparr>user_id = ''u1'', game_type = ''clicker'', score = int i, played_at = i\<rparr>) [1..<12]"
  have a: "answers stable_db ''u1''"
    by (simp add: answers_def stable_db_def)
  have o: "order_by_ok stable_db (records_of ?rows ''u1'')"
    by (rule order_by_ok_stable_db)
  have d: "distinct (map played_at (records_of ?rows ''u1''))"
    by code_simp
  have e: "spec_recentGames ?rows ''u1'' =
        [(''clicker'', 11, 11), (''clicker'', 10, 10), (''clicker'', 9, 9), (''clicker'', 8, 8),
         (''clicker'', 7, 7), (''clicker'', 6, 6), (''clicker'', 5, 5), (''clicker'', 4, 4),
         (''clicker'', 3, 3), (''clicker'', 2, 2)]"
    by code_simp
  from recent_games_top_ten [OF a o] d e
  have "\<exists>st. getStats stable_db ?rows ''u1'' = (200, Stats st) \<and>
      length (recentGames st) = 10 \<and>
      recentGames st =
        [(''clicker'', 11, 11), (''clicker'', 10, 10), (''clicker'', 9, 9), (''clicker'', 8, 8),
         (''clicker'', 7, 7), (''clicker'', 6, 6), (''clicker'', 5, 5), (''clicker'', 4, 4),
         (''clicker'', 3, 3), (''clicker'', 2, 2)]"
    by auto
  with a o d show ?thesis by blast
qed

text \<open>
  The statement of C4 on ties fails for a database that sorts stably: of two rows with
  the same \<open>played_at\<close> the one inserted first is returned first.
\<close>

theorem recent_games_tie_counterexample:
  "run stable_db []
      [RecordScore 5 (JStr ''u1'') (JStr ''clicker'') (JNum 1),
       RecordScore 5 (JStr ''u1'') (JStr ''memory'') (JNum 2)]
     = [\<lparr>user_id = ''u1'', game_type = ''clicker'', score = 1, played_at = 5\<rparr>,
        \<lparr>user_id = ''u1'', game_type = ''memory'', score = 2, played_at = 5\<rparr>] \<and>
   answers stable_db ''u1'' \<and>
   order_by_ok stable_db (records_of
      [\<lparr>user_id = ''u1'', game_type = ''clicker'', score = 1, played_at = 5\<rparr>,
       \<lparr>user_id = ''u1'', game_type = ''memory'', score = 2, played_at = 5\<rparr>] ''u1'') \<and>
   getStats stable_db
      [\<lparr>user_id = ''u1'', game_type = ''clicker'', score = 1, played_at = 5\<rparr>,
       \<lparr>user_id = ''u1'', game_type = ''memory'', score = 2, played_at = 5\<rparr>] ''u1''
     = (200, Stats \<lparr>totalGames = JNum 2, bestClickerScore = JNum 1, bestMemoryMoves = JNum 2,
                    recentGames = [(''clicker'', 1, 5), (''memory'', 2, 5)]\<rparr>) \<and>
   spec_recentGames
      [\<lparr>user_id = ''u1'', game_type = ''clicker'', score = 1, played_at = 5\<rparr>,
       \<lparr>user_id = ''u1'', game_type = ''memory'', score = 2, played_at = 5\<rparr>] ''u1''
     = [(''memory'', 2, 5), (''clicker'', 1, 5)] \<and>
   [(''clicker'', 1, 5), (''memory'', 2, 5)]
     \<noteq> spec_recentGames
      [\<lparr>user_id = ''u1'', game_type = ''clicker'', score = 1, played_at = 5\<rparr>,
       \<lparr>user_id = ''u1'', game_type = ''memory'', score = 2, played_at = 5\<rparr>] ''u1''"
proof -
  let ?a = "\<lparr>user_id = ''u1'', game_type = ''clicker'', score = 1, played_at = 5\<rparr>"
  let ?b = "\<lparr>user_id = ''u1'', game_type = ''memory'', score = 2, played_at = 5\<rparr>"
  have r: "run stable_db []
      [RecordScore 5 (JStr ''u1'') (JStr ''clicker'') (JNum 1),
       RecordScore 5 (JStr ''u1'') (JStr ''memory'') (JNum 2)] = [?a, ?b]"
    by (simp add: recordScore_def insert_game_score_def stable_db_def)
  have a: "answers stable_db ''u1''"
    by (simp add: answers_def stable_db_def)
  have o: "order_by_ok stable_db (records_of [?a, ?b] ''u1'')"
    by (rule order_by_ok_stable_db)
  have g: "getStats stable_db [?a, ?b] ''u1''
     = (200, Stats \<lparr>totalGames = JNum 2, bestClickerScore = JNum 1, bestMemoryMoves = JNum 2,
                    recentGames = [(''clicker'', 1, 5), (''memory'', 2, 5)]\<rparr>)"
    by code_simp
  have s: "spec_recentGames [?a, ?b] ''u1'' = [(''memory'', 2, 5), (''clicker'', 1, 5)]"
    by code_simp
  have n: "[(''clicker'', 1, 5), (''memory'', 2, 5)] \<noteq> spec_recentGames [?a, ?b] ''u1''"
    unfolding s by simp
  from r a o g s n show ?thesis by blast
qed

end
